theory Spec2Isabelle
  imports Main
begin

section \<open>Python strings\<close>

text \<open>
  A Python \<open>str\<close> is a sequence of Unicode code points; it is modelled as the list of
  its code points. \<open>py\<close> embeds an ASCII literal.
\<close>

type_synonym pystr = "nat list"

definition py :: "string \<Rightarrow> pystr" where
  "py s = map of_char s"

text \<open>
  \<open>str.isspace\<close> on one code point: the code points CPython treats as whitespace
  (U+0009..U+000D, U+001C..U+0020, U+0085, U+00A0, U+1680, U+2000..U+200A, U+2028,
  U+2029, U+202F, U+205F, U+3000).
\<close>

definition isspace :: "nat \<Rightarrow> bool" where
  "isspace c \<longleftrightarrow>
     (9 \<le> c \<and> c \<le> 13) \<or> (28 \<le> c \<and> c \<le> 32) \<or> c = 133 \<or> c = 160 \<or> c = 5760 \<or>
     (8192 \<le> c \<and> c \<le> 8202) \<or> c = 8232 \<or> c = 8233 \<or> c = 8239 \<or> c = 8287 \<or>
     c = 12288"

text \<open>\<open>s.strip()\<close>: leading and trailing whitespace removed.\<close>

definition strip :: "pystr \<Rightarrow> pystr" where
  "strip s = rev (dropWhile isspace (rev (dropWhile isspace s)))"

text \<open>\<open>x or ''\<close> for a nullable text field: \<open>None\<close> and the empty string are falsy.\<close>

definition or_empty :: "pystr option \<Rightarrow> pystr" where
  "or_empty x = (case x of None \<Rightarrow> [] | Some s \<Rightarrow> (if s = [] then [] else s))"

text \<open>\<open>str(n)\<close> / \<open>f"{n}"\<close> for a non-negative integer: its decimal digits.\<close>

fun str_nat :: "nat \<Rightarrow> pystr" where
  "str_nat n = (if n < 10 then [48 + n] else str_nat (n div 10) @ [48 + n mod 10])"

declare str_nat.simps [simp del]

section \<open>Data model (auths/models.py)\<close>

type_synonym instant = nat

text \<open>
  \<open>TimestampedModel(models.Model)\<close>: the abstract base class. Every model has a primary
  key, \<open>None\<close> in an instance that was never saved; the base class adds the two
  timestamp columns. \<open>created_at\<close> (\<open>auto_now_add\<close>) is \<open>None\<close> in an instance until its
  first insert. \<open>updated_at\<close> (\<open>auto_now\<close>) is rewritten by every save, so the value an
  instance holds before a save never reaches the database.
\<close>

record TimestampedModel =
  pk :: "nat option"
  created_at :: "instant option"
  updated_at :: instant

text \<open>
  \<open>User(AbstractUser, TimestampedModel)\<close>. The names and flags are the fields of
  \<open>AbstractUser\<close> that this repository reads or writes.
\<close>

record User = TimestampedModel +
  email :: pystr
  username :: pystr
  first_name :: pystr
  last_name :: pystr
  is_active :: bool
  is_staff :: bool
  is_superuser :: bool

text \<open>
  \<open>Technicien(TimestampedModel)\<close>. The type parameter is the content of the \<open>user\<close>
  relation: an instance in memory holds the related object (\<open>User option\<close>, \<open>None\<close>
  while the relation is unset), a row of the table holds the key of the owning user
  (\<open>nat\<close>: the column is \<open>NOT NULL\<close>).
\<close>

record 'u Technicien = TimestampedModel +
  user :: 'u
  nom :: "pystr option"
  prenom :: "pystr option"
  telephone :: "pystr option"
  adresse :: "pystr option"
  experience :: "nat option"
  disponibilite :: bool
  photo :: "pystr option"

section \<open>Computed admin columns (auths/admin.py)\<close>

text \<open>The placeholder \<open>"Non d\'efini"\<close>; its sixth code point is U+00E9.\<close>

definition non_defini :: pystr where
  "non_defini = py ''Non d'' @ [233] @ py ''fini''"

text \<open>
  \<open>TechnicienAdmin.nom_complet\<close>:
  \<^verbatim>\<open>f"{obj.prenom or ''} {obj.nom or ''}".strip() or "Non d\'efini"\<close>
\<close>

definition nom_complet :: "('u, 'm) Technicien_scheme \<Rightarrow> pystr" where
  "nom_complet obj =
     (let s = strip (or_empty (prenom obj) @ [32] @ or_empty (nom obj))
      in if s = [] then non_defini else s)"

section \<open>The persistence layer\<close>

text \<open>
  The two tables. A row of \<open>auth_user\<close> is a \<open>User\<close> whose \<open>pk\<close> is set; a row of the
  technician table holds the key of its owning user in \<open>user\<close>.
\<close>

record database =
  auth_user :: "User list"
  techniciens :: "nat Technicien list"

datatype error = IntegrityError | RelatedObjectDoesNotExist | ValueError | OverflowError

text \<open>
  A call either returns (with the possibly mutated instance) or raises; both carry the
  database as the call leaves it. No transaction is opened by this code, so each write
  is committed when it is made.
\<close>

datatype 'a outcome = Returned 'a database | Raised error database

text \<open>The key given to an inserted row that has none: one more than the largest in use.\<close>

definition fresh_pk :: "nat option list \<Rightarrow> nat" where
  "fresh_pk ks = Suc (Max (set (0 # map (\<lambda>k. case k of None \<Rightarrow> 0 | Some n \<Rightarrow> n) ks)))"

definition get_user :: "database \<Rightarrow> nat \<Rightarrow> User option" where
  "get_user db k = find (\<lambda>r. pk r = Some k) (auth_user db)"

definition get_technicien :: "database \<Rightarrow> nat \<Rightarrow> nat Technicien option" where
  "get_technicien db k = find (\<lambda>r. pk r = Some k) (techniciens db)"

text \<open>
  The unique constraints on \<open>auth_user\<close>: \<open>email\<close> (\<open>unique=True\<close> in \<open>User\<close>) and
  \<open>username\<close> (\<open>unique=True\<close> in \<open>AbstractUser\<close>). Another row holding the value is
  a violation.
\<close>

definition unique_violation_User :: "database \<Rightarrow> User \<Rightarrow> bool" where
  "unique_violation_User db u \<longleftrightarrow>
     (\<exists>r \<in> set (auth_user db). pk r \<noteq> pk u \<and> (email r = email u \<or> username r = username u))"

text \<open>
  \<open>User.save()\<close> (the framework's \<open>Model.save\<close>): \<open>auto_now\<close> sets \<open>updated_at\<close> on
  every save, \<open>auto_now_add\<close> sets \<open>created_at\<close> on insert; the row is updated when one
  with this key exists and inserted otherwise. An update writes the instance's
  \<open>created_at\<close>, and the column is \<open>NOT NULL\<close>.
\<close>

definition User_save :: "database \<Rightarrow> instant \<Rightarrow> User \<Rightarrow> User outcome" where
  "User_save db now u =
     (if unique_violation_User db u then Raised IntegrityError db
      else case pk u of
        None \<Rightarrow>
          (let u' = u\<lparr>created_at := Some now, updated_at := now,
                      pk := Some (fresh_pk (map pk (auth_user db)))\<rparr>
           in Returned u' (db\<lparr>auth_user := auth_user db @ [u']\<rparr>))
      | Some k \<Rightarrow>
          if \<exists>r \<in> set (auth_user db). pk r = Some k
          then if created_at u = None then Raised IntegrityError db
               else (let u' = u\<lparr>updated_at := now\<rparr>
                     in Returned u'
                          (db\<lparr>auth_user :=
                                map (\<lambda>r. if pk r = Some k then u' else r) (auth_user db)\<rparr>))
          else (let u' = u\<lparr>created_at := Some now, updated_at := now\<rparr>
                in Returned u' (db\<lparr>auth_user := auth_user db @ [u']\<rparr>)))"

text \<open>The row written for an instance whose owning user has key \<open>uid\<close>.\<close>

definition to_row :: "User option Technicien \<Rightarrow> nat \<Rightarrow> nat Technicien" where
  "to_row t uid =
     \<lparr>pk = pk t, created_at = created_at t, updated_at = updated_at t, user = uid,
      nom = nom t, prenom = prenom t, telephone = telephone t, adresse = adresse t,
      experience = experience t, disponibilite = disponibilite t, photo = photo t\<rparr>"

text \<open>
  An integer bound to an SQL statement must fit the 64-bit signed \<open>INTEGER\<close> of the
  database (SQLite, the framework's default); one that does not raises \<open>OverflowError\<close>
  before the statement runs.
\<close>

definition fits :: "nat option \<Rightarrow> bool" where
  "fits x = (case x of None \<Rightarrow> True | Some n \<Rightarrow> n < 2 ^ 63)"

text \<open>
  \<open>super().save()\<close> of a \<open>Technicien\<close> (\<open>Model.save\<close>). A related object that was
  never saved is refused before any SQL is sent. The integers of the row (its key, the
  key of the owning user, \<open>experience\<close>) are then bound to the statement. The \<open>user\<close>
  column is \<open>NOT NULL\<close>, a foreign key to \<open>auth_user\<close> and unique (\<open>OneToOneField\<close>).
  An update writes the instance's \<open>created_at\<close>, and the column is \<open>NOT NULL\<close>.
\<close>

definition Model_save_Technicien ::
    "database \<Rightarrow> instant \<Rightarrow> User option Technicien \<Rightarrow> (User option Technicien) outcome" where
  "Model_save_Technicien db now self =
     (case user self of
        None \<Rightarrow>
          if fits (pk self) \<and> fits (experience self) then Raised IntegrityError db
          else Raised OverflowError db
      | Some u \<Rightarrow>
         (case pk u of
            None \<Rightarrow> Raised ValueError db
          | Some uid \<Rightarrow>
              if \<not> (fits (pk self) \<and> fits (Some uid) \<and> fits (experience self))
                then Raised OverflowError db
              else if \<forall>r \<in> set (auth_user db). pk r \<noteq> Some uid then Raised IntegrityError db
              else if \<exists>r \<in> set (techniciens db). pk r \<noteq> pk self \<and> user r = uid
                then Raised IntegrityError db
              else (case pk self of
                None \<Rightarrow>
                  (let self' = self\<lparr>created_at := Some now, updated_at := now,
                                    pk := Some (fresh_pk (map pk (techniciens db)))\<rparr>
                   in Returned self' (db\<lparr>techniciens := techniciens db @ [to_row self' uid]\<rparr>))
              | Some k \<Rightarrow>
                  if \<exists>r \<in> set (techniciens db). pk r = Some k
                  then if created_at self = None then Raised IntegrityError db
                       else (let self' = self\<lparr>updated_at := now\<rparr>
                             in Returned self'
                                  (db\<lparr>techniciens :=
                                        map (\<lambda>r. if pk r = Some k then to_row self' uid else r)
                                            (techniciens db)\<rparr>))
                  else (let self' = self\<lparr>created_at := Some now, updated_at := now\<rparr>
                        in Returned self'
                             (db\<lparr>techniciens := techniciens db @ [to_row self' uid]\<rparr>)))))"

text \<open>
  \<open>Technicien.save\<close>:
  \<^verbatim>\<open>
  if self.user:
      self.user.is_staff = True
      self.user.save()
  super().save(*args, **kwargs)
  \<close>
  Reading \<open>self.user\<close> goes through the descriptor of a relation that is not nullable:
  while the relation is unset it raises \<open>RelatedObjectDoesNotExist\<close>, and a model
  instance is always truthy, so the test never takes the false branch. \<open>now_u\<close> and
  \<open>now_t\<close> are the clock readings of the two writes.
\<close>

definition Technicien_save ::
    "database \<Rightarrow> instant \<Rightarrow> instant \<Rightarrow> User option Technicien
       \<Rightarrow> (User option Technicien) outcome" where
  "Technicien_save db now_u now_t self =
     (case user self of
        None \<Rightarrow> Raised RelatedObjectDoesNotExist db
      | Some u \<Rightarrow>
         (case User_save db now_u (u\<lparr>is_staff := True\<rparr>) of
            Raised e db1 \<Rightarrow> Raised e db1
          | Returned u1 db1 \<Rightarrow> Model_save_Technicien db1 now_t (self\<lparr>user := Some u1\<rparr>)))"

text \<open>
  \<open>User.delete()\<close>: \<open>on_delete=CASCADE\<close> on \<open>Technicien.user\<close> deletes the rows that
  reference the user, then the user. An instance without a key cannot be deleted.
\<close>

definition User_delete :: "database \<Rightarrow> User \<Rightarrow> unit outcome" where
  "User_delete db u =
     (case pk u of
        None \<Rightarrow> Raised ValueError db
      | Some k \<Rightarrow>
          Returned ()
            (db\<lparr>techniciens := filter (\<lambda>t. user t \<noteq> k) (techniciens db),
                auth_user := filter (\<lambda>r. pk r \<noteq> Some k) (auth_user db)\<rparr>))"

text \<open>\<open>Technicien.delete()\<close>: nothing references a technician, so only its row goes.\<close>

definition Technicien_delete :: "database \<Rightarrow> ('u, 'm) Technicien_scheme \<Rightarrow> unit outcome" where
  "Technicien_delete db t =
     (case pk t of
        None \<Rightarrow> Raised ValueError db
      | Some k \<Rightarrow>
          Returned () (db\<lparr>techniciens := filter (\<lambda>r. pk r \<noteq> Some k) (techniciens db)\<rparr>))"

section \<open>Admin views (auths/admin.py)\<close>

text \<open>
  \<open>UserAdmin.has_technicien_profile\<close>: \<open>hasattr(obj, 'technicien_profile')\<close>. The
  reverse one-to-one descriptor looks the technician up by the user's key and raises
  \<open>RelatedObjectDoesNotExist\<close> (an \<open>AttributeError\<close>) when there is none.
\<close>

definition has_technicien_profile :: "database \<Rightarrow> User \<Rightarrow> bool" where
  "has_technicien_profile db obj =
     (case pk obj of
        None \<Rightarrow> False
      | Some k \<Rightarrow> (\<exists>t \<in> set (techniciens db). user t = k))"

text \<open>
  A queryset over technicians is the filter that selects its rows.
  \<open>queryset.update(disponibilite=v)\<close> is one SQL \<open>UPDATE\<close>: it sets the column on the
  rows selected and returns how many rows it matched; no \<open>save()\<close> is called.
\<close>

type_synonym queryset = "nat Technicien \<Rightarrow> bool"

definition update_disponibilite :: "database \<Rightarrow> queryset \<Rightarrow> bool \<Rightarrow> nat \<times> database" where
  "update_disponibilite db qs v =
     (length (filter qs (techniciens db)),
      db\<lparr>techniciens :=
           map (\<lambda>r. if qs r then r\<lparr>disponibilite := v\<rparr> else r) (techniciens db)\<rparr>)"

text \<open>
  The queryset an action receives for the rows ticked in the list:
  \<open>queryset.filter(pk__in=selected)\<close>.
\<close>

definition selection :: "nat list \<Rightarrow> queryset" where
  "selection ks r \<longleftrightarrow> pk r \<in> Some ` set ks"

text \<open>The two actions return the message shown to the operator and the database.\<close>

definition marquer_disponible :: "database \<Rightarrow> queryset \<Rightarrow> pystr \<times> database" where
  "marquer_disponible db qs =
     (let (updated, db') = update_disponibilite db qs True
      in (str_nat updated @ py '' technicien(s) marqu'' @ [233] @ py ''(s) comme disponible(s).'',
          db'))"

definition marquer_indisponible :: "database \<Rightarrow> queryset \<Rightarrow> pystr \<times> database" where
  "marquer_indisponible db qs =
     (let (updated, db') = update_disponibilite db qs False
      in (str_nat updated @ py '' technicien(s) marqu'' @ [233] @ py ''(s) comme indisponible(s).'',
          db'))"

section \<open>Runs of the system\<close>

text \<open>The operations of this code on the database, and the states they reach from an
  empty one. A failed operation leaves the database as the failure left it.\<close>

definition database_of :: "'a outcome \<Rightarrow> database" where
  "database_of r = (case r of Returned _ db \<Rightarrow> db | Raised _ db \<Rightarrow> db)"

datatype operation =
    SaveUser instant User
  | SaveTechnicien instant instant "User option Technicien"
  | DeleteUser User
  | DeleteTechnicien "User option Technicien"
  | MarquerDisponible queryset
  | MarquerIndisponible queryset

fun apply_operation :: "database \<Rightarrow> operation \<Rightarrow> database" where
  "apply_operation db (SaveUser now u) = database_of (User_save db now u)"
| "apply_operation db (SaveTechnicien now_u now_t t) = database_of (Technicien_save db now_u now_t t)"
| "apply_operation db (DeleteUser u) = database_of (User_delete db u)"
| "apply_operation db (DeleteTechnicien t) = database_of (Technicien_delete db t)"
| "apply_operation db (MarquerDisponible qs) = snd (marquer_disponible db qs)"
| "apply_operation db (MarquerIndisponible qs) = snd (marquer_indisponible db qs)"

definition empty_database :: database where
  "empty_database = \<lparr>auth_user = [], techniciens = []\<rparr>"

definition run :: "operation list \<Rightarrow> database" where
  "run ops = foldl apply_operation empty_database ops"

text \<open>
  What the constraints of \<open>auth_user\<close> are meant to keep: every row has a key, and no two
  rows share a key or an email.
\<close>

definition users_consistent :: "database \<Rightarrow> bool" where
  "users_consistent db \<longleftrightarrow>
     (\<forall>r \<in> set (auth_user db). pk r \<noteq> None) \<and> distinct (map pk (auth_user db)) \<and>
     distinct (map email (auth_user db))"

section \<open>Example data\<close>

definition technicien_nomme :: "pystr option \<Rightarrow> pystr option \<Rightarrow> nat Technicien" where
  "technicien_nomme p n =
     \<lparr>pk = Some 1, created_at = Some 0, updated_at = 0, user = 1, nom = n, prenom = p,
      telephone = None, adresse = None, experience = None, disponibilite = True,
      photo = None\<rparr>"

definition alice :: User where
  "alice =
     \<lparr>pk = Some 1, created_at = Some 1, updated_at = 1, email = py ''alice@example.org'',
      username = py ''alice'', first_name = py ''Alice'', last_name = py ''Martin'',
      is_active = True, is_staff = False, is_superuser = False\<rparr>"

text \<open>A user instance that was never saved, with the given email and username.\<close>

definition nouvel_utilisateur :: "pystr \<Rightarrow> pystr \<Rightarrow> User" where
  "nouvel_utilisateur e n =
     \<lparr>pk = None, created_at = None, updated_at = 0, email = e, username = n, first_name = [],
      last_name = [], is_active = True, is_staff = False, is_superuser = False\<rparr>"

text \<open>A technician instance that was never saved, for the given owner.\<close>

definition nouveau_technicien :: "User option \<Rightarrow> User option Technicien" where
  "nouveau_technicien u =
     \<lparr>pk = None, created_at = None, updated_at = 0, user = u, nom = Some (py ''Martin''),
      prenom = Some (py ''Alice''), telephone = None, adresse = None, experience = Some 3,
      disponibilite = False, photo = None\<rparr>"

text \<open>The technician of a user as fetched from the database, saved before under a key.\<close>

definition technicien_enregistre :: "User \<Rightarrow> nat \<Rightarrow> User option Technicien" where
  "technicien_enregistre u k = nouveau_technicien (Some u)\<lparr>pk := Some k, created_at := Some 0\<rparr>"

text \<open>One user who is not staff, without and with a technician profile.\<close>

definition db_alice :: database where
  "db_alice = \<lparr>auth_user = [alice], techniciens = []\<rparr>"

definition db_alice_profile :: database where
  "db_alice_profile =
     \<lparr>auth_user = [alice], techniciens = [to_row (technicien_enregistre alice 1) 1]\<rparr>"

text \<open>
  A second user; a database in which only the second user has a technician profile, and
  one in which each user has a profile that is not available.
\<close>

definition bob :: User where
  "bob = alice\<lparr>pk := Some 2, email := py ''bob@example.org'', username := py ''bob''\<rparr>"

definition db_bob_profile :: database where
  "db_bob_profile =
     \<lparr>auth_user = [alice, bob], techniciens = [to_row (technicien_enregistre bob 2) 2]\<rparr>"

definition db_deux :: database where
  "db_deux =
     \<lparr>auth_user = [alice, bob],
      techniciens =
        [to_row (technicien_enregistre alice 1) 1,
         to_row (technicien_enregistre bob 2) 2]\<rparr>"

section \<open>Strings: auxiliary facts\<close>

lemma strip_space_Cons: "isspace c \<Longrightarrow> strip (c # s) = strip s"
  by (simp add: strip_def)

lemma isspace_32: "isspace 32"
  by (simp add: isspace_def)

lemma strip_clean:
  assumes "s \<noteq> []" and "\<not> isspace (hd s)" and "\<not> isspace (last s)"
  shows "strip s = s"
proof -
  from assms have "dropWhile isspace s = s" by (cases s) auto
  moreover from assms have "dropWhile isspace (rev s) = rev s"
    by (cases "rev s") (auto simp: last_rev hd_rev)
  ultimately show ?thesis by (simp add: strip_def)
qed

lemma non_defini_code: "non_defini = [78, 111, 110, 32, 100, 233, 102, 105, 110, 105]"
  by (simp add: non_defini_def py_def)

section \<open>The persistence layer: auxiliary facts\<close>

lemma fresh_pk_greater: "Some k \<in> set ks \<Longrightarrow> k < fresh_pk ks"
proof -
  assume "Some k \<in> set ks"
  then have "k \<in> set (0 # map (\<lambda>k. case k of None \<Rightarrow> 0 | Some n \<Rightarrow> n) ks)"
    by force
  then have "k \<le> Max (set (0 # map (\<lambda>k. case k of None \<Rightarrow> 0 | Some n \<Rightarrow> n) ks))"
    by (intro Max_ge) auto
  then show ?thesis by (simp add: fresh_pk_def)
qed

lemma fresh_pk_unused: "r \<in> set rows \<Longrightarrow> f r \<noteq> Some (fresh_pk (map f rows))"
proof
  assume "r \<in> set rows" and "f r = Some (fresh_pk (map f rows))"
  then have "Some (fresh_pk (map f rows)) \<in> set (map f rows)" by force
  from fresh_pk_greater [OF this] show False by simp
qed

lemma find_None_append: "find P xs = None \<Longrightarrow> find P (xs @ [y]) = (if P y then Some y else None)"
  by (induction xs) (auto split: if_splits)

lemma find_replace:
  "\<exists>r \<in> set xs. P r \<Longrightarrow> P y \<Longrightarrow> find P (map (\<lambda>r. if P r then y else r) xs) = Some y"
  by (induction xs) auto

lemma User_save_Raised: "User_save db now u = Raised e db' \<Longrightarrow> db' = db \<and> e = IntegrityError"
  by (auto simp: User_save_def Let_def split: if_splits option.splits)

lemma User_save_techniciens:
  "User_save db now u = Returned u1 db1 \<Longrightarrow> techniciens db1 = techniciens db"
  by (auto simp: User_save_def Let_def split: if_splits option.splits)

lemma User_save_Returned:
  assumes "User_save db now u = Returned u1 db1"
  shows "\<exists>k. pk u1 = Some k \<and> get_user db1 k = Some u1"
    and "is_staff u1 = is_staff u" and "email u1 = email u"
proof -
  show "is_staff u1 = is_staff u" "email u1 = email u"
    using assms by (auto simp: User_save_def Let_def split: if_splits option.splits)
  show "\<exists>k. pk u1 = Some k \<and> get_user db1 k = Some u1"
  proof (cases "pk u")
    case None
    let ?k = "fresh_pk (map pk (auth_user db))"
    from None assms have u1: "u1 = u\<lparr>created_at := Some now, updated_at := now, pk := Some ?k\<rparr>"
      and db1: "auth_user db1 = auth_user db @ [u1]"
      by (auto simp: User_save_def Let_def split: if_splits)
    have "find (\<lambda>r. pk r = Some ?k) (auth_user db) = None"
      by (auto simp: find_None_iff dest: fresh_pk_unused)
    then have "get_user db1 ?k = Some u1"
      using u1 by (simp add: get_user_def db1 find_None_append)
    with u1 show ?thesis by simp
  next
    case (Some k)
    show ?thesis
    proof (cases "\<exists>r \<in> set (auth_user db). pk r = Some k")
      case True
      with Some assms have u1: "u1 = u\<lparr>updated_at := now\<rparr>"
        and db1: "auth_user db1 = map (\<lambda>r. if pk r = Some k then u1 else r) (auth_user db)"
        by (auto simp: User_save_def Let_def split: if_splits)
      have "pk u1 = Some k" using u1 Some by simp
      then have "get_user db1 k = Some u1"
        unfolding get_user_def db1 using True by (intro find_replace) auto
      with \<open>pk u1 = Some k\<close> show ?thesis by simp
    next
      case False
      with Some assms have u1: "u1 = u\<lparr>created_at := Some now, updated_at := now\<rparr>"
        and db1: "auth_user db1 = auth_user db @ [u1]"
        by (auto simp: User_save_def Let_def split: if_splits)
      have "find (\<lambda>r. pk r = Some k) (auth_user db) = None"
        using False by (auto simp: find_None_iff)
      then have "get_user db1 k = Some u1"
        using u1 Some by (simp add: get_user_def db1 find_None_append)
      with u1 Some show ?thesis by simp
    qed
  qed
qed

lemma Model_save_Technicien_Raised:
  "Model_save_Technicien db now t = Raised e db' \<Longrightarrow> db' = db"
  by (auto simp: Model_save_Technicien_def Let_def split: if_splits option.splits)

lemma Model_save_Technicien_auth_user:
  "Model_save_Technicien db now t = Returned t' db' \<Longrightarrow> auth_user db' = auth_user db \<and> user t' = user t"
  by (auto simp: Model_save_Technicien_def Let_def split: if_splits option.splits)

lemma Model_save_Technicien_Returned:
  assumes "Model_save_Technicien db now t = Returned t' db'"
  shows "\<exists>u uid k. user t = Some u \<and> pk u = Some uid \<and> pk t' = Some k \<and>
           get_technicien db' k = Some (to_row t' uid) \<and> updated_at t' = now"
proof -
  from assms obtain u uid where u: "user t = Some u" "pk u = Some uid"
    by (auto simp: Model_save_Technicien_def split: option.splits if_splits)
  show ?thesis
  proof (cases "pk t")
    case None
    let ?k = "fresh_pk (map pk (techniciens db))"
    from None assms u have t': "t' = t\<lparr>created_at := Some now, updated_at := now, pk := Some ?k\<rparr>"
      and db': "techniciens db' = techniciens db @ [to_row t' uid]"
      by (auto simp: Model_save_Technicien_def Let_def split: if_splits)
    have "find (\<lambda>r. pk r = Some ?k) (techniciens db) = None"
      by (auto simp: find_None_iff dest: fresh_pk_unused)
    then have "get_technicien db' ?k = Some (to_row t' uid)"
      using t' by (simp add: get_technicien_def db' find_None_append to_row_def)
    with t' u show ?thesis by simp
  next
    case (Some k)
    show ?thesis
    proof (cases "\<exists>r \<in> set (techniciens db). pk r = Some k")
      case True
      with Some assms u have t': "t' = t\<lparr>updated_at := now\<rparr>"
        and db': "techniciens db' =
                   map (\<lambda>r. if pk r = Some k then to_row t' uid else r) (techniciens db)"
        by (auto simp: Model_save_Technicien_def Let_def split: if_splits)
      have "pk (to_row t' uid) = Some k" using t' Some by (simp add: to_row_def)
      then have "get_technicien db' k = Some (to_row t' uid)"
        unfolding get_technicien_def db' using True by (intro find_replace) auto
      with t' Some u show ?thesis by simp
    next
      case False
      with Some assms u have t': "t' = t\<lparr>created_at := Some now, updated_at := now\<rparr>"
        and db': "techniciens db' = techniciens db @ [to_row t' uid]"
        by (auto simp: Model_save_Technicien_def Let_def split: if_splits)
      have "find (\<lambda>r. pk r = Some k) (techniciens db) = None"
        using False by (auto simp: find_None_iff)
      then have "get_technicien db' k = Some (to_row t' uid)"
        using t' Some by (simp add: get_technicien_def db' find_None_append to_row_def)
      with t' Some u show ?thesis by simp
    qed
  qed
qed

section \<open>The constraints on users are kept\<close>

lemma find_Some_mem: "find P xs = Some x \<Longrightarrow> x \<in> set xs \<and> P x"
  by (induction xs) (auto split: if_splits)

lemma map_replace_same_key:
  "f y = k \<Longrightarrow> map f (map (\<lambda>r. if f r = k then y else r) xs) = map f xs"
  by (induction xs) auto

lemma distinct_map_replace_aux:
  assumes "distinct (map f xs)" and "distinct (map g xs)"
    and "\<forall>r \<in> set xs. f r \<noteq> k \<longrightarrow> g r \<noteq> g y"
  shows "distinct (map (\<lambda>r. g (if f r = k then y else r)) xs)"
  using assms
proof (induction xs)
  case Nil
  then show ?case by simp
next
  case (Cons x xs)
  then have ih: "distinct (map (\<lambda>r. g (if f r = k then y else r)) xs)" by simp
  have "g (if f x = k then y else x) \<noteq> g (if f r = k then y else r)" if "r \<in> set xs" for r
  proof -
    from Cons.prems that have "f x \<noteq> f r" "g x \<noteq> g r" by (auto simp: image_iff)
    with Cons.prems(3) that show ?thesis by (cases "f x = k"; cases "f r = k") auto
  qed
  with ih show ?case by (auto simp: image_iff)
qed

lemma distinct_map_replace:
  assumes "distinct (map f xs)" and "distinct (map g xs)"
    and "\<forall>r \<in> set xs. f r \<noteq> k \<longrightarrow> g r \<noteq> g y"
  shows "distinct (map g (map (\<lambda>r. if f r = k then y else r) xs))"
  using distinct_map_replace_aux [OF assms] by (simp add: comp_def)

lemma User_save_consistent:
  assumes "users_consistent db"
  shows "users_consistent (database_of (User_save db now u))"
proof (cases "unique_violation_User db u")
  case True
  with assms show ?thesis by (simp add: User_save_def database_of_def)
next
  case nv: False
  then have ne: "\<forall>r \<in> set (auth_user db). pk r \<noteq> pk u \<longrightarrow> email r \<noteq> email u"
    by (auto simp: unique_violation_User_def)
  from assms have keys: "\<forall>r \<in> set (auth_user db). pk r \<noteq> None"
    and dk: "distinct (map pk (auth_user db))" and de: "distinct (map email (auth_user db))"
    by (simp_all add: users_consistent_def)
  show ?thesis
  proof (cases "pk u")
    case None
    let ?k = "fresh_pk (map pk (auth_user db))"
    let ?u = "u\<lparr>created_at := Some now, updated_at := now, pk := Some ?k\<rparr>"
    from None nv have db': "database_of (User_save db now u) = db\<lparr>auth_user := auth_user db @ [?u]\<rparr>"
      by (simp add: User_save_def database_of_def Let_def)
    have "Some ?k \<notin> pk ` set (auth_user db)"
      using fresh_pk_unused [of _ "auth_user db" pk] by force
    moreover have "email u \<notin> email ` set (auth_user db)"
      using ne keys None by force
    ultimately show ?thesis
      unfolding db' users_consistent_def using keys dk de by auto
  next
    case (Some k)
    show ?thesis
    proof (cases "\<exists>r \<in> set (auth_user db). pk r = Some k")
      case True
      let ?u = "u\<lparr>updated_at := now\<rparr>"
      from Some nv True have db': "database_of (User_save db now u) = db \<or>
          database_of (User_save db now u) =
          db\<lparr>auth_user := map (\<lambda>r. if pk r = Some k then ?u else r) (auth_user db)\<rparr>"
        by (simp add: User_save_def database_of_def Let_def)
      have 1: "map pk (map (\<lambda>r. if pk r = Some k then ?u else r) (auth_user db)) = map pk (auth_user db)"
        using Some by (intro map_replace_same_key) simp
      have 2: "distinct (map email (map (\<lambda>r. if pk r = Some k then ?u else r) (auth_user db)))"
        using dk de ne Some by (intro distinct_map_replace) auto
      have 3: "\<forall>r \<in> set (map (\<lambda>r. if pk r = Some k then ?u else r) (auth_user db)). pk r \<noteq> None"
        using keys Some by auto
      have "users_consistent
              (db\<lparr>auth_user := map (\<lambda>r. if pk r = Some k then ?u else r) (auth_user db)\<rparr>)"
        unfolding users_consistent_def using 1 2 3 dk by (simp del: map_map)
      with db' assms show ?thesis by auto
    next
      case False
      let ?u = "u\<lparr>created_at := Some now, updated_at := now\<rparr>"
      from Some nv False have db': "database_of (User_save db now u) = db\<lparr>auth_user := auth_user db @ [?u]\<rparr>"
        by (simp add: User_save_def database_of_def Let_def)
      have "Some k \<notin> pk ` set (auth_user db)"
        using False by force
      moreover have "email u \<notin> email ` set (auth_user db)"
        using ne False Some by force
      ultimately show ?thesis
        unfolding db' users_consistent_def using keys dk de Some by auto
    qed
  qed
qed

lemma Model_save_Technicien_users:
  "auth_user (database_of (Model_save_Technicien db now t)) = auth_user db"
  by (auto simp: Model_save_Technicien_def database_of_def Let_def split: option.splits)

lemma Technicien_save_consistent:
  assumes "users_consistent db"
  shows "users_consistent (database_of (Technicien_save db now_u now_t t))"
proof (cases "user t")
  case None
  with assms show ?thesis by (simp add: Technicien_save_def database_of_def)
next
  case (Some u)
  show ?thesis
  proof (cases "User_save db now_u (u\<lparr>is_staff := True\<rparr>)")
    case (Raised e db1)
    with User_save_Raised [OF Raised] Some assms show ?thesis
      by (simp add: Technicien_save_def database_of_def)
  next
    case (Returned u1 db1)
    with User_save_consistent [OF assms, of now_u "u\<lparr>is_staff := True\<rparr>"]
    have "users_consistent db1" by (simp add: database_of_def)
    moreover have "database_of (Technicien_save db now_u now_t t) =
        database_of (Model_save_Technicien db1 now_t (t\<lparr>user := Some u1\<rparr>))"
      using Some Returned by (simp add: Technicien_save_def)
    ultimately show ?thesis
      using Model_save_Technicien_users [of db1 now_t "t\<lparr>user := Some u1\<rparr>"]
      by (simp add: users_consistent_def)
  qed
qed

lemma User_delete_consistent:
  "users_consistent db \<Longrightarrow> users_consistent (database_of (User_delete db u))"
  by (auto simp: User_delete_def database_of_def users_consistent_def distinct_map_filter
      split: option.splits)

lemma Technicien_delete_users:
  "auth_user (database_of (Technicien_delete db t)) = auth_user db"
  by (simp add: Technicien_delete_def database_of_def split: option.splits)

lemma marquer_disponible_users: "auth_user (snd (marquer_disponible db qs)) = auth_user db"
  by (simp add: marquer_disponible_def update_disponibilite_def)

lemma marquer_indisponible_users: "auth_user (snd (marquer_indisponible db qs)) = auth_user db"
  by (simp add: marquer_indisponible_def update_disponibilite_def)

lemma apply_operation_consistent:
  "users_consistent db \<Longrightarrow> users_consistent (apply_operation db op)"
proof (cases op)
  case (SaveUser now u)
  assume "users_consistent db"
  then show ?thesis using SaveUser by (simp add: User_save_consistent)
next
  case (SaveTechnicien now_u now_t t)
  assume "users_consistent db"
  then show ?thesis using SaveTechnicien by (simp add: Technicien_save_consistent)
next
  case (DeleteUser u)
  assume "users_consistent db"
  then show ?thesis using DeleteUser by (simp add: User_delete_consistent)
next
  case (DeleteTechnicien t)
  assume "users_consistent db"
  then show ?thesis using DeleteTechnicien Technicien_delete_users [of db t]
    by (simp add: users_consistent_def)
next
  case (MarquerDisponible qs)
  assume "users_consistent db"
  then show ?thesis using MarquerDisponible marquer_disponible_users [of db qs]
    by (simp add: users_consistent_def)
next
  case (MarquerIndisponible qs)
  assume "users_consistent db"
  then show ?thesis using MarquerIndisponible marquer_indisponible_users [of db qs]
    by (simp add: users_consistent_def)
qed

lemma run_consistent: "users_consistent (run ops)"
proof (induction ops rule: rev_induct)
  case Nil
  show ?case by (simp add: run_def empty_database_def users_consistent_def)
next
  case (snoc op ops)
  then show ?case by (simp add: run_def apply_operation_consistent)
qed

section \<open>The bulk update: auxiliary facts\<close>

lemma update_disponibilite_nth:
  "i < length (techniciens db) \<Longrightarrow>
   techniciens (snd (update_disponibilite db qs v)) ! i =
     (if qs (techniciens db ! i) then (techniciens db ! i)\<lparr>disponibilite := v\<rparr>
      else techniciens db ! i)"
  by (simp add: update_disponibilite_def)

lemma update_disponibilite_length:
  "length (techniciens (snd (update_disponibilite db qs v))) = length (techniciens db)"
  by (simp add: update_disponibilite_def)

lemma update_disponibilite_count:
  "fst (update_disponibilite db qs v) =
     card {i. i < length (techniciens db) \<and> qs (techniciens db ! i)}"
  by (simp add: update_disponibilite_def length_filter_conv_card)

lemma update_disponibilite_twice:
  "snd (update_disponibilite (snd (update_disponibilite db qs v)) qs v) =
     snd (update_disponibilite db qs v)"
  by (simp add: update_disponibilite_def)

lemma marquer_disponible_eq:
  "marquer_disponible db qs =
     (str_nat (fst (update_disponibilite db qs True)) @ py '' technicien(s) marqu'' @ [233] @
        py ''(s) comme disponible(s).'',
      snd (update_disponibilite db qs True))"
  by (simp add: marquer_disponible_def split: prod.splits)

lemma marquer_indisponible_eq:
  "marquer_indisponible db qs =
     (str_nat (fst (update_disponibilite db qs False)) @ py '' technicien(s) marqu'' @ [233] @
        py ''(s) comme indisponible(s).'',
      snd (update_disponibilite db qs False))"
  by (simp add: marquer_indisponible_def split: prod.splits)

text \<open>Saves and an action on the example data.\<close>

lemma save_alice:
  "Technicien_save db_alice 5 6 (nouveau_technicien (Some alice)) =
     Returned
       (nouveau_technicien (Some (alice\<lparr>updated_at := 5, is_staff := True\<rparr>))
          \<lparr>created_at := Some 6, updated_at := 6, pk := Some 1\<rparr>)
       \<lparr>auth_user = [alice\<lparr>updated_at := 5, is_staff := True\<rparr>],
        techniciens =
          [to_row (nouveau_technicien (Some alice)\<lparr>created_at := Some 6, updated_at := 6, pk := Some 1\<rparr>) 1]\<rparr>"
  by (simp add: Technicien_save_def User_save_def unique_violation_User_def
        Model_save_Technicien_def db_alice_def alice_def nouveau_technicien_def
        technicien_enregistre_def fresh_pk_def to_row_def fits_def Let_def)

lemma save_alice_again:
  "Technicien_save db_alice_profile 5 6 (nouveau_technicien (Some alice)) =
     Raised IntegrityError (db_alice_profile\<lparr>auth_user := [alice\<lparr>updated_at := 5, is_staff := True\<rparr>]\<rparr>)"
  by (simp add: Technicien_save_def User_save_def unique_violation_User_def
        Model_save_Technicien_def db_alice_profile_def alice_def nouveau_technicien_def
        technicien_enregistre_def fresh_pk_def to_row_def fits_def Let_def)

lemma save_alice_overflow:
  "Technicien_save db_alice 5 6 (nouveau_technicien (Some alice)\<lparr>experience := Some (2 ^ 63)\<rparr>) =
     Raised OverflowError (db_alice\<lparr>auth_user := [alice\<lparr>updated_at := 5, is_staff := True\<rparr>]\<rparr>)"
  by (simp add: Technicien_save_def User_save_def unique_violation_User_def
        Model_save_Technicien_def db_alice_def alice_def nouveau_technicien_def fits_def Let_def)

lemma save_alice_key_of_bob:
  "Technicien_save db_bob_profile 5 6 (nouveau_technicien (Some alice)\<lparr>pk := Some 2\<rparr>) =
     Raised IntegrityError
       (db_bob_profile\<lparr>auth_user := [alice\<lparr>updated_at := 5, is_staff := True\<rparr>, bob]\<rparr>)"
  by (simp add: Technicien_save_def User_save_def unique_violation_User_def
        Model_save_Technicien_def db_bob_profile_def alice_def bob_def nouveau_technicien_def
        technicien_enregistre_def to_row_def fits_def py_def Let_def)

lemma marquer_deux:
  "marquer_disponible db_deux (selection [1]) =
     (py ''1 technicien(s) marqu'' @ [233] @ py ''(s) comme disponible(s).'',
      db_deux\<lparr>techniciens :=
        [to_row ((technicien_enregistre alice 1)\<lparr>disponibilite := True\<rparr>) 1,
         to_row (technicien_enregistre bob 2) 2]\<rparr>)"
  by (simp add: marquer_disponible_def update_disponibilite_def db_deux_def selection_def
        to_row_def nouveau_technicien_def technicien_enregistre_def str_nat.simps py_def)

lemma save_alice_profile:
  "Technicien_save db_alice_profile 5 6 (technicien_enregistre alice 1) =
     Returned
       ((technicien_enregistre (alice\<lparr>updated_at := 5, is_staff := True\<rparr>) 1)
          \<lparr>updated_at := 6\<rparr>)
       \<lparr>auth_user = [alice\<lparr>updated_at := 5, is_staff := True\<rparr>],
        techniciens =
          [to_row ((technicien_enregistre alice 1)\<lparr>updated_at := 6\<rparr>) 1]\<rparr>"
  by (simp add: Technicien_save_def User_save_def unique_violation_User_def
        Model_save_Technicien_def db_alice_profile_def alice_def nouveau_technicien_def
        technicien_enregistre_def to_row_def fits_def Let_def)

section \<open>The full-name column\<close>

text \<open>
  C3, as stated, fails on a surname that is only whitespace with no given name: the
  surname is not empty, yet the column is neither the trimmed join (which is empty) nor
  the surname, but the placeholder.
\<close>

theorem nom_complet_blank_counterexample:
  "or_empty (nom (technicien_nomme None (Some [32]))) \<noteq> [] \<and>
   nom_complet (technicien_nomme None (Some [32])) \<noteq>
     strip (or_empty (prenom (technicien_nomme None (Some [32]))) @ [32] @
            or_empty (nom (technicien_nomme None (Some [32])))) \<and>
   nom_complet (technicien_nomme None (Some [32])) \<noteq> [32] \<and>
   nom_complet (technicien_nomme None (Some [32])) = non_defini"
  by (simp add: nom_complet_def technicien_nomme_def or_empty_def strip_def isspace_def
        non_defini_code)

text \<open>
  C3 (amended). With \<open>g\<close> the given name and \<open>n\<close> the surname, an absent name counting
  as empty: the column is \<open>g\<close>, one space, \<open>n\<close>, trimmed of surrounding whitespace,
  whenever that is not empty, and the placeholder \<open>Non d\'efini\<close> when it is empty. So
  two names without outer whitespace give \<open>g n\<close>; without a given name the column is
  the trimmed surname, and the surname itself when it has no outer whitespace; with
  both names absent or empty it is the placeholder.
\<close>

theorem nom_complet_trimmed_or_placeholder:
  fixes obj :: "('u, 'm) Technicien_scheme"
  defines "g \<equiv> or_empty (prenom obj)" and "n \<equiv> or_empty (nom obj)"
  shows "(strip (g @ [32] @ n) \<noteq> [] \<longrightarrow> nom_complet obj = strip (g @ [32] @ n)) \<and>
         (strip (g @ [32] @ n) = [] \<longrightarrow> nom_complet obj = non_defini) \<and>
         (g \<noteq> [] \<and> n \<noteq> [] \<and> \<not> isspace (hd g) \<and> \<not> isspace (last n) \<longrightarrow>
            nom_complet obj = g @ [32] @ n) \<and>
         (g = [] \<and> strip n \<noteq> [] \<longrightarrow> nom_complet obj = strip n) \<and>
         (g = [] \<and> n \<noteq> [] \<and> \<not> isspace (hd n) \<and> \<not> isspace (last n) \<longrightarrow>
            nom_complet obj = n) \<and>
         (g = [] \<and> n = [] \<longrightarrow> nom_complet obj = non_defini)"
proof -
  have a: "strip (g @ [32] @ n) \<noteq> [] \<longrightarrow> nom_complet obj = strip (g @ [32] @ n)"
    by (simp add: nom_complet_def g_def n_def Let_def)
  have b: "strip (g @ [32] @ n) = [] \<longrightarrow> nom_complet obj = non_defini"
    by (simp add: nom_complet_def g_def n_def Let_def)
  have c: "g \<noteq> [] \<and> n \<noteq> [] \<and> \<not> isspace (hd g) \<and> \<not> isspace (last n) \<longrightarrow>
            nom_complet obj = g @ [32] @ n"
  proof
    assume h: "g \<noteq> [] \<and> n \<noteq> [] \<and> \<not> isspace (hd g) \<and> \<not> isspace (last n)"
    then have "strip (g @ [32] @ n) = g @ [32] @ n"
      by (intro strip_clean) auto
    with a show "nom_complet obj = g @ [32] @ n" by simp
  qed
  have s: "g = [] \<Longrightarrow> strip (g @ [32] @ n) = strip n"
    by (simp add: strip_space_Cons isspace_32)
  have d: "g = [] \<and> strip n \<noteq> [] \<longrightarrow> nom_complet obj = strip n"
    using a s by simp
  have e: "g = [] \<and> n \<noteq> [] \<and> \<not> isspace (hd n) \<and> \<not> isspace (last n) \<longrightarrow>
            nom_complet obj = n"
    using d strip_clean [of n] by auto
  have f: "g = [] \<and> n = [] \<longrightarrow> nom_complet obj = non_defini"
  proof
    assume h: "g = [] \<and> n = []"
    then have "strip (g @ [32] @ n) = strip []" using s by simp
    also have "strip [] = []" by (simp add: strip_def)
    finally show "nom_complet obj = non_defini" using b by simp
  qed
  from a b c d e f show ?thesis by blast
qed

theorem nom_complet_trimmed_or_placeholder_witness:
  "nom_complet (technicien_nomme (Some []) (Some (py ''Martin''))) = py ''Martin'' \<and>
   nom_complet (technicien_nomme None None) = non_defini \<and>
   nom_complet (technicien_nomme (Some (py ''Jean'')) (Some (py ''Martin''))) =
     py ''Jean Martin''"
proof -
  have 1: "nom_complet (technicien_nomme (Some []) (Some (py ''Martin''))) = py ''Martin''"
    using nom_complet_trimmed_or_placeholder
            [of "technicien_nomme (Some []) (Some (py ''Martin''))"]
    by (simp add: technicien_nomme_def or_empty_def py_def isspace_def)
  have 2: "nom_complet (technicien_nomme None None) = non_defini"
    using nom_complet_trimmed_or_placeholder [of "technicien_nomme None None"]
    by (simp add: technicien_nomme_def or_empty_def)
  have 3: "nom_complet (technicien_nomme (Some (py ''Jean'')) (Some (py ''Martin''))) =
             py ''Jean Martin''"
    using nom_complet_trimmed_or_placeholder
            [of "technicien_nomme (Some (py ''Jean'')) (Some (py ''Martin''))"]
    by (simp add: technicien_nomme_def or_empty_def py_def isspace_def)
  from 1 2 3 show ?thesis by simp
qed

section \<open>The save hook of Technicien\<close>

text \<open>
  C1. A save of a technician with an owning user attached that returns has first saved
  the user with the staff flag set, whatever the flag was: in the database \<open>db1\<close> left
  by that write the user is stored as staff while the technician table is still the old
  one; the technician is then written on \<open>db1\<close>. In the final database the owning user
  is stored with the staff flag true, and the technician's row refers to that user.
\<close>

theorem Technicien_save_promotes_owner:
  assumes "Technicien_save db now_u now_t self = Returned self' db'"
      and "user self = Some u"
  shows "\<exists>u1 db1 k tk.
           User_save db now_u (u\<lparr>is_staff := True\<rparr>) = Returned u1 db1 \<and>
           pk u1 = Some k \<and> is_staff u1 \<and> get_user db1 k = Some u1 \<and>
           techniciens db1 = techniciens db \<and>
           Model_save_Technicien db1 now_t (self\<lparr>user := Some u1\<rparr>) = Returned self' db' \<and>
           user self' = Some u1 \<and> get_user db' k = Some u1 \<and>
           pk self' = Some tk \<and> get_technicien db' tk = Some (to_row self' k)"
proof -
  from assms obtain u1 db1 where
    us: "User_save db now_u (u\<lparr>is_staff := True\<rparr>) = Returned u1 db1" and
    ts: "Model_save_Technicien db1 now_t (self\<lparr>user := Some u1\<rparr>) = Returned self' db'"
    by (auto simp: Technicien_save_def split: outcome.splits)
  from User_save_Returned [OF us] obtain k where
    k: "pk u1 = Some k" "get_user db1 k = Some u1" and staff: "is_staff u1"
    by auto
  from Model_save_Technicien_auth_user [OF ts] have
    same: "auth_user db' = auth_user db1" and owner: "user self' = Some u1"
    by simp_all
  from Model_save_Technicien_Returned [OF ts] k obtain tk where
    tk: "pk self' = Some tk" "get_technicien db' tk = Some (to_row self' k)"
    by auto
  have "get_user db' k = Some u1"
    using k same by (simp add: get_user_def)
  with us ts k staff owner tk User_save_techniciens [OF us] show ?thesis
    by blast
qed


theorem Technicien_save_promotes_owner_witness:
  "\<not> is_staff alice \<and>
   (\<exists>self' db'.
      Technicien_save db_alice 5 6 (nouveau_technicien (Some alice)) = Returned self' db' \<and>
      map_option is_staff (get_user db' 1) = Some True \<and> map user (techniciens db') = [1])"
proof -
  obtain self' db' where
    sd: "Technicien_save db_alice 5 6 (nouveau_technicien (Some alice)) = Returned self' db'"
    and o: "user self' = Some (alice\<lparr>updated_at := 5, is_staff := True\<rparr>)"
    and t: "map user (techniciens db') = [1]"
    using save_alice by (simp add: nouveau_technicien_def technicien_enregistre_def to_row_def)
  have u: "user (nouveau_technicien (Some alice)) = Some alice"
    by (simp add: nouveau_technicien_def technicien_enregistre_def)
  from Technicien_save_promotes_owner [OF sd u] obtain u1 k where
    "pk u1 = Some k" "is_staff u1" "user self' = Some u1" "get_user db' k = Some u1"
    by blast
  with o have "map_option is_staff (get_user db' 1) = Some True"
    by (simp add: alice_def)
  moreover have "\<not> is_staff alice" by (simp add: alice_def)
  ultimately show ?thesis using sd t by auto
qed

text \<open>
  C2. The two writes are not atomic. Take a save whose write of the promoted user has
  returned. When the save then raises, it is the write of the technician that raised,
  and the database is left as the user write left it: the user is stored as staff, the
  technician table is what it was before the save, and so the user has a profile only
  if it had one before. Such saves exist for every owner: the write of the technician is
  refused, for one, whenever \<open>experience\<close> does not fit the column.
\<close>

theorem Technicien_save_partial_failure:
  assumes "user self = Some u"
      and "User_save db now_u (u\<lparr>is_staff := True\<rparr>) = Returned u1 db1"
  shows "(Technicien_save db now_u now_t self = Raised e db' \<longrightarrow>
            Model_save_Technicien db1 now_t (self\<lparr>user := Some u1\<rparr>) = Raised e db1 \<and>
            db' = db1 \<and>
            (\<exists>k. pk u1 = Some k \<and> get_user db' k = Some u1 \<and> is_staff u1) \<and>
            techniciens db' = techniciens db \<and>
            has_technicien_profile db' u1 = has_technicien_profile db u1) \<and>
         (\<not> fits (experience self) \<longrightarrow>
            Technicien_save db now_u now_t self = Raised OverflowError db1)"
proof (intro conjI impI)
  from User_save_Returned [OF assms(2)] obtain k where
    k: "pk u1 = Some k" "get_user db1 k = Some u1" and staff: "is_staff u1"
    by auto
  have hook: "Technicien_save db now_u now_t self =
                Model_save_Technicien db1 now_t (self\<lparr>user := Some u1\<rparr>)"
    using assms by (simp add: Technicien_save_def)
  {
    assume "\<not> fits (experience self)"
    then show "Technicien_save db now_u now_t self = Raised OverflowError db1"
      using k by (simp add: hook Model_save_Technicien_def)
  }
  assume r: "Technicien_save db now_u now_t self = Raised e db'"
  then have ts: "Model_save_Technicien db1 now_t (self\<lparr>user := Some u1\<rparr>) = Raised e db'"
    by (simp add: hook)
  from Model_save_Technicien_Raised [OF ts] show eq: "db' = db1" .
  from ts eq show "Model_save_Technicien db1 now_t (self\<lparr>user := Some u1\<rparr>) = Raised e db1"
    by simp
  from k staff eq show "\<exists>k. pk u1 = Some k \<and> get_user db' k = Some u1 \<and> is_staff u1"
    by simp
  from eq User_save_techniciens [OF assms(2)] show t: "techniciens db' = techniciens db"
    by simp
  then show "has_technicien_profile db' u1 = has_technicien_profile db u1"
    using k by (simp add: has_technicien_profile_def)
qed

theorem Technicien_save_partial_failure_witness:
  "\<not> is_staff alice \<and> \<not> has_technicien_profile db_alice alice \<and>
   Technicien_save db_alice 5 6
       (nouveau_technicien (Some alice)\<lparr>experience := Some (2 ^ 63)\<rparr>) =
     Raised OverflowError
       (db_alice\<lparr>auth_user := [alice\<lparr>updated_at := 5, is_staff := True\<rparr>]\<rparr>) \<and>
   map_option is_staff
     (get_user (db_alice\<lparr>auth_user := [alice\<lparr>updated_at := 5, is_staff := True\<rparr>]\<rparr>) 1) =
     Some True \<and>
   techniciens (db_alice\<lparr>auth_user := [alice\<lparr>updated_at := 5, is_staff := True\<rparr>]\<rparr>) = [] \<and>
   \<not> has_technicien_profile
       (db_alice\<lparr>auth_user := [alice\<lparr>updated_at := 5, is_staff := True\<rparr>]\<rparr>)
       (alice\<lparr>updated_at := 5, is_staff := True\<rparr>) \<and>
   Technicien_save db_bob_profile 5 6 (nouveau_technicien (Some alice)\<lparr>pk := Some 2\<rparr>) =
     Raised IntegrityError
       (db_bob_profile\<lparr>auth_user := [alice\<lparr>updated_at := 5, is_staff := True\<rparr>, bob]\<rparr>) \<and>
   \<not> has_technicien_profile
       (db_bob_profile\<lparr>auth_user := [alice\<lparr>updated_at := 5, is_staff := True\<rparr>, bob]\<rparr>)
       (alice\<lparr>updated_at := 5, is_staff := True\<rparr>) \<and>
   Technicien_save db_alice_profile 5 6 (nouveau_technicien (Some alice)) =
     Raised IntegrityError
       (db_alice_profile\<lparr>auth_user := [alice\<lparr>updated_at := 5, is_staff := True\<rparr>]\<rparr>)"
proof -
  let ?a = "alice\<lparr>updated_at := 5, is_staff := True\<rparr>"
  let ?t = "nouveau_technicien (Some alice)\<lparr>experience := Some (2 ^ 63)\<rparr>"
  let ?d = "db_alice\<lparr>auth_user := [?a]\<rparr>"
  let ?t2 = "nouveau_technicien (Some alice)\<lparr>pk := Some 2\<rparr>"
  let ?d2 = "db_bob_profile\<lparr>auth_user := [?a, bob]\<rparr>"
  have before: "\<not> is_staff alice" "\<not> has_technicien_profile db_alice alice"
    by (simp_all add: alice_def db_alice_def has_technicien_profile_def)
  have u: "user ?t = Some alice"
    by (simp add: nouveau_technicien_def)
  have us: "User_save db_alice 5 (alice\<lparr>is_staff := True\<rparr>) = Returned ?a ?d"
    by (simp add: User_save_def unique_violation_User_def db_alice_def alice_def Let_def)
  from Technicien_save_partial_failure [OF u us, of 6 OverflowError ?d] save_alice_overflow
  obtain k where
    1: "pk ?a = Some k" "get_user ?d k = Some ?a" "techniciens ?d = techniciens db_alice"
       "has_technicien_profile ?d ?a = has_technicien_profile db_alice ?a"
    by blast
  from 1 have staff: "map_option is_staff (get_user ?d 1) = Some True"
    by (simp add: alice_def)
  from 1 have none: "techniciens ?d = []" "\<not> has_technicien_profile ?d ?a"
    by (simp_all add: db_alice_def has_technicien_profile_def)
  have u2: "user ?t2 = Some alice"
    by (simp add: nouveau_technicien_def)
  have us2: "User_save db_bob_profile 5 (alice\<lparr>is_staff := True\<rparr>) = Returned ?a ?d2"
    by (simp add: User_save_def unique_violation_User_def db_bob_profile_def alice_def bob_def
          py_def Let_def)
  from Technicien_save_partial_failure [OF u2 us2, of 6 IntegrityError ?d2]
    save_alice_key_of_bob
  have "has_technicien_profile ?d2 ?a = has_technicien_profile db_bob_profile ?a"
    by blast
  then have none2: "\<not> has_technicien_profile ?d2 ?a"
    by (simp add: has_technicien_profile_def db_bob_profile_def alice_def to_row_def
          technicien_enregistre_def nouveau_technicien_def)
  from before staff none none2 show ?thesis
    by (simp only: save_alice_overflow save_alice_key_of_bob save_alice_again simp_thms)
qed

text \<open>
  C9, as stated, fails: saving a technician whose owning-user reference is unset does not
  complete. The relation is not nullable, so reading it raises.
\<close>

theorem Technicien_save_unset_user_counterexample:
  "user (nouveau_technicien None) = None \<and>
   Technicien_save db_alice 5 6 (nouveau_technicien None) =
     Raised RelatedObjectDoesNotExist db_alice"
  by (simp add: Technicien_save_def nouveau_technicien_def technicien_enregistre_def)

text \<open>
  C9 (amended). A save of a technician whose owning-user reference is unset raises
  \<open>RelatedObjectDoesNotExist\<close> and leaves the database as it was: no user's staff flag
  is modified and no technician is persisted. The write of the technician alone would be
  refused as well: with \<open>OverflowError\<close> when its key or \<open>experience\<close> does not fit the
  database's integers, and otherwise with \<open>IntegrityError\<close>, the column of the owning
  user being \<open>NOT NULL\<close>.
\<close>

theorem Technicien_save_unset_user_raises:
  assumes "user self = None"
  shows "Technicien_save db now_u now_t self = Raised RelatedObjectDoesNotExist db \<and>
         Model_save_Technicien db now_t self =
           Raised (if fits (pk self) \<and> fits (experience self) then IntegrityError
                   else OverflowError) db"
proof
  from assms show "Technicien_save db now_u now_t self = Raised RelatedObjectDoesNotExist db"
    by (simp add: Technicien_save_def)
  from assms show "Model_save_Technicien db now_t self =
           Raised (if fits (pk self) \<and> fits (experience self) then IntegrityError
                   else OverflowError) db"
    by (simp add: Model_save_Technicien_def)
qed

theorem Technicien_save_unset_user_raises_witness:
  "user (nouveau_technicien None\<lparr>pk := Some 1\<rparr>) = None \<and>
   Technicien_save db_alice_profile 7 8 (nouveau_technicien None\<lparr>pk := Some 1\<rparr>) =
     Raised RelatedObjectDoesNotExist db_alice_profile"
proof -
  have n: "user (nouveau_technicien None\<lparr>pk := Some 1\<rparr>) = None"
    by (simp add: nouveau_technicien_def technicien_enregistre_def)
  from Technicien_save_unset_user_raises [OF n] n show ?thesis by simp
qed

section \<open>Email uniqueness\<close>

text \<open>
  C7. When a user has been saved, an attempt to create another user (an instance without
  key) with the same email raises \<open>IntegrityError\<close> and leaves the database as it was;
  more generally a save is refused whenever another row holds the email. In every
  database reached from the empty one by the operations of this code, no two stored
  users share an email.
\<close>

theorem email_unique:
  "(User_save db now u = Returned u1 db1 \<and> pk u2 = None \<and> email u2 = email u \<longrightarrow>
      User_save db1 now' u2 = Raised IntegrityError db1) \<and>
   (r \<in> set (auth_user db) \<and> pk r \<noteq> pk u2 \<and> email r = email u2 \<longrightarrow>
      User_save db now' u2 = Raised IntegrityError db) \<and>
   distinct (map email (auth_user (run ops)))"
proof -
  have b: "User_save db now' u2 = Raised IntegrityError db"
    if "r \<in> set (auth_user db) \<and> pk r \<noteq> pk u2 \<and> email r = email u2" for r db
    using that by (auto simp: User_save_def unique_violation_User_def)
  have a: "User_save db1 now' u2 = Raised IntegrityError db1"
    if h: "User_save db now u = Returned u1 db1 \<and> pk u2 = None \<and> email u2 = email u"
  proof -
    from h User_save_Returned [of db now u u1 db1] obtain k where
      "pk u1 = Some k" "get_user db1 k = Some u1" "email u1 = email u" by auto
    then have "u1 \<in> set (auth_user db1) \<and> pk u1 \<noteq> pk u2 \<and> email u1 = email u2"
      using h by (auto simp: get_user_def dest: find_Some_mem)
    then show ?thesis by (rule b)
  qed
  have c: "distinct (map email (auth_user (run ops)))"
    using run_consistent [of ops] by (simp add: users_consistent_def)
  from a b c show ?thesis by blast
qed

theorem email_unique_witness:
  "User_save empty_database 1 (nouvel_utilisateur (py ''a@example.org'') (py ''anne'')) =
     Returned
       (nouvel_utilisateur (py ''a@example.org'') (py ''anne'')
          \<lparr>created_at := Some 1, updated_at := 1, pk := Some 1\<rparr>)
       \<lparr>auth_user = [nouvel_utilisateur (py ''a@example.org'') (py ''anne'')
                       \<lparr>created_at := Some 1, updated_at := 1, pk := Some 1\<rparr>],
        techniciens = []\<rparr> \<and>
   User_save
       \<lparr>auth_user = [nouvel_utilisateur (py ''a@example.org'') (py ''anne'')
                       \<lparr>created_at := Some 1, updated_at := 1, pk := Some 1\<rparr>],
        techniciens = []\<rparr>
       2 (nouvel_utilisateur (py ''a@example.org'') (py ''bob'')) =
     Raised IntegrityError
       \<lparr>auth_user = [nouvel_utilisateur (py ''a@example.org'') (py ''anne'')
                       \<lparr>created_at := Some 1, updated_at := 1, pk := Some 1\<rparr>],
        techniciens = []\<rparr> \<and>
   distinct
     (map email
        (auth_user
           (run [SaveUser 1 (nouvel_utilisateur (py ''a@example.org'') (py ''anne'')),
                 SaveUser 2 (nouvel_utilisateur (py ''a@example.org'') (py ''bob''))])))"
proof -
  let ?a = "nouvel_utilisateur (py ''a@example.org'') (py ''anne'')"
  let ?b = "nouvel_utilisateur (py ''a@example.org'') (py ''bob'')"
  let ?d = "\<lparr>auth_user = [?a\<lparr>created_at := Some 1, updated_at := 1, pk := Some 1\<rparr>], techniciens = []\<rparr>"
  have 1: "User_save empty_database 1 ?a =
             Returned (?a\<lparr>created_at := Some 1, updated_at := 1, pk := Some 1\<rparr>) ?d"
    by (simp add: User_save_def unique_violation_User_def empty_database_def
          nouvel_utilisateur_def fresh_pk_def Let_def)
  have 2: "pk ?b = None" "email ?b = email ?a"
    by (simp_all add: nouvel_utilisateur_def)
  from email_unique [of empty_database 1 ?a _ ?d ?b 2] 1 2
  have "User_save ?d 2 ?b = Raised IntegrityError ?d" by blast
  moreover from email_unique [where ops = "[SaveUser 1 ?a, SaveUser 2 ?b]"]
  have "distinct (map email (auth_user (run [SaveUser 1 ?a, SaveUser 2 ?b])))" by blast
  ultimately show ?thesis using 1 by simp
qed

section \<open>Deletion\<close>

text \<open>
  C6. Deleting a user that has a key returns, and afterwards the user is gone together
  with every technician row that referred to it, while the rows of other users stay.
  Deleting a technician that has a key returns, removes that technician and leaves the
  user table as it was; whatever its outcome, deleting a technician never changes the
  user table.
\<close>

theorem delete_cascades_one_way:
  "(pk u = Some k \<longrightarrow>
      (\<exists>db'. User_delete db u = Returned () db' \<and> get_user db' k = None \<and>
         \<not> has_technicien_profile db' u \<and>
         (\<forall>t \<in> set (techniciens db). user t = k \<longrightarrow> t \<notin> set (techniciens db')) \<and>
         (\<forall>t \<in> set (techniciens db). user t \<noteq> k \<longrightarrow> t \<in> set (techniciens db')))) \<and>
   (pk t = Some tk \<longrightarrow>
      (\<exists>db'. Technicien_delete db t = Returned () db' \<and> get_technicien db' tk = None \<and>
         auth_user db' = auth_user db)) \<and>
   auth_user (database_of (Technicien_delete db t)) = auth_user db"
proof -
  have a: "\<exists>db'. User_delete db u = Returned () db' \<and> get_user db' k = None \<and>
         \<not> has_technicien_profile db' u \<and>
         (\<forall>t \<in> set (techniciens db). user t = k \<longrightarrow> t \<notin> set (techniciens db')) \<and>
         (\<forall>t \<in> set (techniciens db). user t \<noteq> k \<longrightarrow> t \<in> set (techniciens db'))"
    if "pk u = Some k"
    using that
    by (auto simp: User_delete_def get_user_def has_technicien_profile_def find_None_iff)
  have b: "\<exists>db'. Technicien_delete db t = Returned () db' \<and> get_technicien db' tk = None \<and>
         auth_user db' = auth_user db"
    if "pk t = Some tk"
    using that by (auto simp: Technicien_delete_def get_technicien_def find_None_iff)
  from a b Technicien_delete_users [of db t] show ?thesis by blast
qed

theorem delete_cascades_one_way_witness:
  "pk alice = Some 1 \<and> has_technicien_profile db_alice_profile alice \<and>
   \<not> has_technicien_profile (database_of (User_delete db_alice_profile alice)) alice \<and>
   get_user (database_of (User_delete db_alice_profile alice)) 1 = None \<and>
   techniciens (database_of (User_delete db_alice_profile alice)) = [] \<and>
   get_technicien
     (database_of (Technicien_delete db_alice_profile
        (technicien_enregistre alice 1))) 1 = None \<and>
   auth_user
     (database_of (Technicien_delete db_alice_profile
        (technicien_enregistre alice 1))) = [alice]"
proof -
  let ?t = "technicien_enregistre alice 1"
  have k: "pk alice = Some 1" by (simp add: alice_def)
  have tk: "pk ?t = Some 1" by (simp add: technicien_enregistre_def)
  have before: "has_technicien_profile db_alice_profile alice"
    by (simp add: has_technicien_profile_def db_alice_profile_def alice_def to_row_def)
  from delete_cascades_one_way [of alice 1 db_alice_profile ?t 1] k tk
  obtain d1 d2 where
    d1: "User_delete db_alice_profile alice = Returned () d1" "get_user d1 1 = None"
        "\<not> has_technicien_profile d1 alice"
        "\<forall>t \<in> set (techniciens db_alice_profile). user t = 1 \<longrightarrow> t \<notin> set (techniciens d1)"
    and d2: "Technicien_delete db_alice_profile ?t = Returned () d2"
        "get_technicien d2 1 = None" "auth_user d2 = auth_user db_alice_profile"
    by blast
  have "techniciens d1 = []"
    using d1(1) by (auto simp: User_delete_def db_alice_profile_def alice_def to_row_def)
  with k before d1 d2 show ?thesis
    by (simp add: database_of_def db_alice_profile_def)
qed

section \<open>The profile indicator\<close>

text \<open>
  C8. \<open>has_technicien_profile\<close> is false for a user to which no technician row refers,
  in particular for a user just created in a database whose technician rows all refer
  to existing users; after a technician has been saved for a user, it is true for
  that user.
\<close>

theorem has_technicien_profile_reports_attachment:
  "((\<forall>t \<in> set (techniciens db). pk obj \<noteq> Some (user t)) \<longrightarrow>
      \<not> has_technicien_profile db obj) \<and>
   ((\<forall>t \<in> set (techniciens db). \<exists>r \<in> set (auth_user db). pk r = Some (user t)) \<and>
    pk u = None \<and> User_save db now u = Returned u1 db1 \<longrightarrow>
      \<not> has_technicien_profile db1 u1) \<and>
   (Technicien_save db now_u now_t self = Returned self' db' \<and> user self' = Some obj' \<longrightarrow>
      has_technicien_profile db' obj')"
proof -
  have a: "\<not> has_technicien_profile db obj"
    if "\<forall>t \<in> set (techniciens db). pk obj \<noteq> Some (user t)"
    using that by (auto simp: has_technicien_profile_def split: option.splits)
  have b: "\<not> has_technicien_profile db1 u1"
    if h: "(\<forall>t \<in> set (techniciens db). \<exists>r \<in> set (auth_user db). pk r = Some (user t)) \<and>
           pk u = None \<and> User_save db now u = Returned u1 db1"
  proof -
    from h have "pk u1 = Some (fresh_pk (map pk (auth_user db)))"
      and "techniciens db1 = techniciens db"
      by (auto simp: User_save_def Let_def split: if_splits)
    moreover have "user t \<noteq> fresh_pk (map pk (auth_user db))" if "t \<in> set (techniciens db)" for t
    proof -
      from h that obtain r where "r \<in> set (auth_user db)" "pk r = Some (user t)" by blast
      with fresh_pk_unused [of r "auth_user db" pk] show ?thesis by auto
    qed
    ultimately show ?thesis by (auto simp: has_technicien_profile_def)
  qed
  have c: "has_technicien_profile db' obj'"
    if h: "Technicien_save db now_u now_t self = Returned self' db' \<and> user self' = Some obj'"
  proof -
    from h obtain u where u: "user self = Some u"
      by (auto simp: Technicien_save_def split: option.splits)
    with h obtain u1 db1 where
      ts: "Model_save_Technicien db1 now_t (self\<lparr>user := Some u1\<rparr>) = Returned self' db'"
      by (auto simp: Technicien_save_def split: outcome.splits)
    from Model_save_Technicien_auth_user [OF ts] h have o: "obj' = u1" by simp
    from Model_save_Technicien_Returned [OF ts] obtain uid k where
      "pk u1 = Some uid" "get_technicien db' k = Some (to_row self' uid)"
      by auto
    then have "to_row self' uid \<in> set (techniciens db')" "pk obj' = Some uid"
      using o by (auto simp: get_technicien_def dest: find_Some_mem)
    then show ?thesis
      by (auto simp: has_technicien_profile_def to_row_def intro!: bexI [of _ "to_row self' uid"])
  qed
  from a b c show ?thesis by blast
qed

theorem has_technicien_profile_reports_attachment_witness:
  "\<not> has_technicien_profile db_alice alice \<and>
   (\<exists>self' db' obj'.
      Technicien_save db_alice 5 6 (nouveau_technicien (Some alice)) = Returned self' db' \<and>
      user self' = Some obj' \<and> pk obj' = pk alice \<and> has_technicien_profile db' obj')"
proof -
  have "\<forall>t \<in> set (techniciens db_alice). pk alice \<noteq> Some (user t)"
    by (simp add: db_alice_def)
  with has_technicien_profile_reports_attachment [where db = db_alice and obj = alice]
  have 1: "\<not> has_technicien_profile db_alice alice" by blast
  obtain self' db' where
    sd: "Technicien_save db_alice 5 6 (nouveau_technicien (Some alice)) = Returned self' db'"
    and o: "user self' = Some (alice\<lparr>updated_at := 5, is_staff := True\<rparr>)"
    using save_alice by (simp add: nouveau_technicien_def technicien_enregistre_def)
  with has_technicien_profile_reports_attachment
         [where db = db_alice and now_u = 5 and now_t = 6
            and self = "nouveau_technicien (Some alice)" and self' = self' and db' = db'
            and obj' = "alice\<lparr>updated_at := 5, is_staff := True\<rparr>"]
  have "has_technicien_profile db' (alice\<lparr>updated_at := 5, is_staff := True\<rparr>)" by blast
  with 1 sd o show ?thesis by auto
qed

section \<open>The bulk availability actions\<close>

text \<open>
  C4. ``Mark available'' leaves the technician table with the same rows in the same
  places, every row of the selection now available, and the message to the operator
  starts with the number of rows of the selection; ``mark unavailable'' does the same
  with the flag false.
\<close>

theorem bulk_actions_set_flag_and_count:
  "(marquer_disponible db qs = (msg, db') \<longrightarrow>
      length (techniciens db') = length (techniciens db) \<and>
      (\<forall>i < length (techniciens db). qs (techniciens db ! i) \<longrightarrow>
         disponibilite (techniciens db' ! i) \<and>
         pk (techniciens db' ! i) = pk (techniciens db ! i)) \<and>
      msg = str_nat (card {i. i < length (techniciens db) \<and> qs (techniciens db ! i)}) @
            py '' technicien(s) marqu'' @ [233] @ py ''(s) comme disponible(s).'') \<and>
   (marquer_indisponible db qs = (msg, db') \<longrightarrow>
      length (techniciens db') = length (techniciens db) \<and>
      (\<forall>i < length (techniciens db). qs (techniciens db ! i) \<longrightarrow>
         \<not> disponibilite (techniciens db' ! i) \<and>
         pk (techniciens db' ! i) = pk (techniciens db ! i)) \<and>
      msg = str_nat (card {i. i < length (techniciens db) \<and> qs (techniciens db ! i)}) @
            py '' technicien(s) marqu'' @ [233] @ py ''(s) comme indisponible(s).'')"
proof (intro conjI impI)
  assume h: "marquer_disponible db qs = (msg, db')"
  then have db': "db' = snd (update_disponibilite db qs True)"
    and msg: "msg = str_nat (fst (update_disponibilite db qs True)) @
                py '' technicien(s) marqu'' @ [233] @ py ''(s) comme disponible(s).''"
    by (simp_all add: marquer_disponible_eq)
  show "length (techniciens db') = length (techniciens db)"
    by (simp add: db' update_disponibilite_length)
  show "\<forall>i < length (techniciens db). qs (techniciens db ! i) \<longrightarrow>
         disponibilite (techniciens db' ! i) \<and>
         pk (techniciens db' ! i) = pk (techniciens db ! i)"
    by (simp add: db' update_disponibilite_nth)
  show "msg = str_nat (card {i. i < length (techniciens db) \<and> qs (techniciens db ! i)}) @
            py '' technicien(s) marqu'' @ [233] @ py ''(s) comme disponible(s).''"
    by (simp only: msg update_disponibilite_count)
next
  assume h: "marquer_indisponible db qs = (msg, db')"
  then have db': "db' = snd (update_disponibilite db qs False)"
    and msg: "msg = str_nat (fst (update_disponibilite db qs False)) @
                py '' technicien(s) marqu'' @ [233] @ py ''(s) comme indisponible(s).''"
    by (simp_all add: marquer_indisponible_eq)
  show "length (techniciens db') = length (techniciens db)"
    by (simp add: db' update_disponibilite_length)
  show "\<forall>i < length (techniciens db). qs (techniciens db ! i) \<longrightarrow>
         \<not> disponibilite (techniciens db' ! i) \<and>
         pk (techniciens db' ! i) = pk (techniciens db ! i)"
    by (simp add: db' update_disponibilite_nth)
  show "msg = str_nat (card {i. i < length (techniciens db) \<and> qs (techniciens db ! i)}) @
            py '' technicien(s) marqu'' @ [233] @ py ''(s) comme indisponible(s).''"
    by (simp only: msg update_disponibilite_count)
qed

theorem bulk_actions_set_flag_and_count_witness:
  "map disponibilite (techniciens db_deux) = [False, False] \<and>
   selection [1] (techniciens db_deux ! 0) \<and>
   fst (marquer_disponible db_deux (selection [1])) =
     py ''1 technicien(s) marqu'' @ [233] @ py ''(s) comme disponible(s).'' \<and>
   disponibilite (techniciens (snd (marquer_disponible db_deux (selection [1]))) ! 0) \<and>
   map disponibilite (techniciens (snd (marquer_disponible db_deux (selection [1])))) =
     [True, False]"
proof -
  have s: "selection [1] (techniciens db_deux ! 0)" "0 < length (techniciens db_deux)"
    by (simp_all add: selection_def db_deux_def to_row_def technicien_enregistre_def)
  from bulk_actions_set_flag_and_count
         [where db = db_deux and qs = "selection [1]"
            and msg = "fst (marquer_disponible db_deux (selection [1]))"
            and db' = "snd (marquer_disponible db_deux (selection [1]))"] s
  have "disponibilite (techniciens (snd (marquer_disponible db_deux (selection [1]))) ! 0)"
    by simp
  moreover have "map disponibilite (techniciens db_deux) = [False, False]"
    by (simp add: db_deux_def to_row_def nouveau_technicien_def technicien_enregistre_def)
  moreover have "fst (marquer_disponible db_deux (selection [1])) =
     py ''1 technicien(s) marqu'' @ [233] @ py ''(s) comme disponible(s).''"
    by (simp only: marquer_deux fst_conv)
  moreover have
    "map disponibilite (techniciens (snd (marquer_disponible db_deux (selection [1])))) =
       [True, False]"
    unfolding marquer_deux by (simp add: to_row_def nouveau_technicien_def technicien_enregistre_def)
  ultimately show ?thesis
    using s(1) by (intro conjI)
qed

text \<open>
  C5. Applying either action a second time to the same queryset leaves the database as
  the first application left it. The count in the message of each application is the
  number of rows the queryset selects in the database on which that application runs;
  for a queryset that does not look at the availability flag (a selection by key, for
  one) the two messages are the same.
\<close>

theorem bulk_actions_idempotent:
  "snd (marquer_disponible (snd (marquer_disponible db qs)) qs) =
     snd (marquer_disponible db qs) \<and>
   snd (marquer_indisponible (snd (marquer_indisponible db qs)) qs) =
     snd (marquer_indisponible db qs) \<and>
   fst (marquer_disponible db qs) =
     str_nat (card {i. i < length (techniciens db) \<and> qs (techniciens db ! i)}) @
     py '' technicien(s) marqu'' @ [233] @ py ''(s) comme disponible(s).'' \<and>
   fst (marquer_disponible (snd (marquer_disponible db qs)) qs) =
     str_nat (card {i. i < length (techniciens (snd (marquer_disponible db qs))) \<and>
                       qs (techniciens (snd (marquer_disponible db qs)) ! i)}) @
     py '' technicien(s) marqu'' @ [233] @ py ''(s) comme disponible(s).'' \<and>
   fst (marquer_indisponible db qs) =
     str_nat (card {i. i < length (techniciens db) \<and> qs (techniciens db ! i)}) @
     py '' technicien(s) marqu'' @ [233] @ py ''(s) comme indisponible(s).'' \<and>
   fst (marquer_indisponible (snd (marquer_indisponible db qs)) qs) =
     str_nat (card {i. i < length (techniciens (snd (marquer_indisponible db qs))) \<and>
                       qs (techniciens (snd (marquer_indisponible db qs)) ! i)}) @
     py '' technicien(s) marqu'' @ [233] @ py ''(s) comme indisponible(s).'' \<and>
   ((\<forall>r v. qs (r\<lparr>disponibilite := v\<rparr>) = qs r) \<longrightarrow>
      fst (marquer_disponible (snd (marquer_disponible db qs)) qs) =
        fst (marquer_disponible db qs) \<and>
      fst (marquer_indisponible (snd (marquer_indisponible db qs)) qs) =
        fst (marquer_indisponible db qs))"
proof -
  have c: "fst (marquer_disponible d qs) =
     str_nat (card {i. i < length (techniciens d) \<and> qs (techniciens d ! i)}) @
     py '' technicien(s) marqu'' @ [233] @ py ''(s) comme disponible(s).''" for d
    by (simp only: marquer_disponible_eq fst_conv update_disponibilite_count)
  have c': "fst (marquer_indisponible d qs) =
     str_nat (card {i. i < length (techniciens d) \<and> qs (techniciens d ! i)}) @
     py '' technicien(s) marqu'' @ [233] @ py ''(s) comme indisponible(s).''" for d
    by (simp only: marquer_indisponible_eq fst_conv update_disponibilite_count)
  have i: "snd (marquer_disponible (snd (marquer_disponible db qs)) qs) =
     snd (marquer_disponible db qs)"
    by (simp only: marquer_disponible_eq snd_conv update_disponibilite_twice)
  have i': "snd (marquer_indisponible (snd (marquer_indisponible db qs)) qs) =
     snd (marquer_indisponible db qs)"
    by (simp only: marquer_indisponible_eq snd_conv update_disponibilite_twice)
  have n: "fst (update_disponibilite (snd (update_disponibilite db qs v)) qs v) =
             fst (update_disponibilite db qs v)"
    if "\<forall>r v. qs (r\<lparr>disponibilite := v\<rparr>) = qs r" for v
  proof -
    have "filter qs (map (\<lambda>r. if qs r then r\<lparr>disponibilite := v\<rparr> else r) xs) =
            map (\<lambda>r. if qs r then r\<lparr>disponibilite := v\<rparr> else r) (filter qs xs)" for xs
      using that by (induction xs) auto
    then show ?thesis by (simp add: update_disponibilite_def)
  qed
  have s: "(\<forall>r v. qs (r\<lparr>disponibilite := v\<rparr>) = qs r) \<longrightarrow>
      fst (marquer_disponible (snd (marquer_disponible db qs)) qs) =
        fst (marquer_disponible db qs) \<and>
      fst (marquer_indisponible (snd (marquer_indisponible db qs)) qs) =
        fst (marquer_indisponible db qs)"
    using n by (simp add: marquer_disponible_eq marquer_indisponible_eq)
  from i i' c [of db] c [of "snd (marquer_disponible db qs)"] c' [of db]
    c' [of "snd (marquer_indisponible db qs)"] s
  show ?thesis by (intro conjI)
qed

theorem bulk_actions_idempotent_witness:
  "map disponibilite (techniciens (snd (marquer_disponible db_deux (selection [1])))) =
     [True, False] \<and>
   snd (marquer_disponible (snd (marquer_disponible db_deux (selection [1]))) (selection [1])) =
     snd (marquer_disponible db_deux (selection [1])) \<and>
   fst (marquer_disponible (snd (marquer_disponible db_deux (selection [1]))) (selection [1])) =
     py ''1 technicien(s) marqu'' @ [233] @ py ''(s) comme disponible(s).''"
proof -
  have "selection [1] (r\<lparr>disponibilite := v\<rparr>) = selection [1] r" for r v
    by (simp add: selection_def)
  with bulk_actions_idempotent [of db_deux "selection [1]"]
  have "snd (marquer_disponible (snd (marquer_disponible db_deux (selection [1]))) (selection [1])) =
          snd (marquer_disponible db_deux (selection [1]))"
    and "fst (marquer_disponible (snd (marquer_disponible db_deux (selection [1]))) (selection [1])) =
          fst (marquer_disponible db_deux (selection [1]))"
    by blast+
  moreover have "fst (marquer_disponible db_deux (selection [1])) =
     py ''1 technicien(s) marqu'' @ [233] @ py ''(s) comme disponible(s).''"
    by (simp only: marquer_deux fst_conv)
  moreover have
    "map disponibilite (techniciens (snd (marquer_disponible db_deux (selection [1])))) =
       [True, False]"
    unfolding marquer_deux by (simp add: to_row_def nouveau_technicien_def technicien_enregistre_def)
  ultimately show ?thesis by (simp only: simp_thms)
qed

text \<open>
  C10. Both actions leave the user table as it is and change nothing of a technician row
  but its availability flag, which only rows of the selection can change; in particular
  every row keeps its \<open>updated_at\<close>. A save of one technician that returns, by
  contrast, stores the technician with \<open>updated_at\<close> at the instant of the write and
  stores its owner as staff, with the owner's \<open>updated_at\<close> refreshed too.
\<close>

theorem bulk_actions_frame:
  "auth_user (snd (marquer_disponible db qs)) = auth_user db \<and>
   auth_user (snd (marquer_indisponible db qs)) = auth_user db \<and>
   length (techniciens (snd (marquer_disponible db qs))) = length (techniciens db) \<and>
   length (techniciens (snd (marquer_indisponible db qs))) = length (techniciens db) \<and>
   (\<forall>i < length (techniciens db).
      techniciens (snd (marquer_disponible db qs)) ! i =
        (techniciens db ! i)
          \<lparr>disponibilite := qs (techniciens db ! i) \<or> disponibilite (techniciens db ! i)\<rparr> \<and>
      updated_at (techniciens (snd (marquer_disponible db qs)) ! i) =
        updated_at (techniciens db ! i) \<and>
      techniciens (snd (marquer_indisponible db qs)) ! i =
        (techniciens db ! i)
          \<lparr>disponibilite := \<not> qs (techniciens db ! i) \<and> disponibilite (techniciens db ! i)\<rparr> \<and>
      updated_at (techniciens (snd (marquer_indisponible db qs)) ! i) =
        updated_at (techniciens db ! i)) \<and>
   (Technicien_save db now_u now_t self = Returned self' db' \<longrightarrow>
      (\<exists>k u1 uk. pk self' = Some k \<and>
         map_option updated_at (get_technicien db' k) = Some now_t \<and>
         user self' = Some u1 \<and> pk u1 = Some uk \<and>
         map_option is_staff (get_user db' uk) = Some True \<and>
         map_option updated_at (get_user db' uk) = Some now_u))"
proof -
  have frame: "techniciens (snd (update_disponibilite db qs v)) ! i =
        (techniciens db ! i)
          \<lparr>disponibilite := (if qs (techniciens db ! i) then v
                              else disponibilite (techniciens db ! i))\<rparr>"
    if "i < length (techniciens db)" for i v
    using that by (simp add: update_disponibilite_nth)
  have rows: "\<forall>i < length (techniciens db).
      techniciens (snd (marquer_disponible db qs)) ! i =
        (techniciens db ! i)
          \<lparr>disponibilite := qs (techniciens db ! i) \<or> disponibilite (techniciens db ! i)\<rparr> \<and>
      updated_at (techniciens (snd (marquer_disponible db qs)) ! i) =
        updated_at (techniciens db ! i) \<and>
      techniciens (snd (marquer_indisponible db qs)) ! i =
        (techniciens db ! i)
          \<lparr>disponibilite := \<not> qs (techniciens db ! i) \<and> disponibilite (techniciens db ! i)\<rparr> \<and>
      updated_at (techniciens (snd (marquer_indisponible db qs)) ! i) =
        updated_at (techniciens db ! i)"
    by (simp add: marquer_disponible_eq marquer_indisponible_eq frame)
  have save: "\<exists>k u1 uk. pk self' = Some k \<and>
         map_option updated_at (get_technicien db' k) = Some now_t \<and>
         user self' = Some u1 \<and> pk u1 = Some uk \<and>
         map_option is_staff (get_user db' uk) = Some True \<and>
         map_option updated_at (get_user db' uk) = Some now_u"
    if h: "Technicien_save db now_u now_t self = Returned self' db'"
  proof -
    from h obtain u u1 db1 where
      us: "User_save db now_u (u\<lparr>is_staff := True\<rparr>) = Returned u1 db1" and
      ts: "Model_save_Technicien db1 now_t (self\<lparr>user := Some u1\<rparr>) = Returned self' db'"
      by (auto simp: Technicien_save_def split: option.splits outcome.splits)
    from User_save_Returned [OF us] obtain uk where
      uk: "pk u1 = Some uk" "get_user db1 uk = Some u1" and staff: "is_staff u1"
      by auto
    from us have "updated_at u1 = now_u"
      by (auto simp: User_save_def Let_def split: if_splits option.splits)
    moreover from Model_save_Technicien_auth_user [OF ts] have
      "auth_user db' = auth_user db1" and owner: "user self' = Some u1"
      by simp_all
    ultimately have u: "map_option is_staff (get_user db' uk) = Some True"
      "map_option updated_at (get_user db' uk) = Some now_u"
      using uk staff by (simp_all add: get_user_def)
    from Model_save_Technicien_Returned [OF ts] uk obtain k where
      "pk self' = Some k" "get_technicien db' k = Some (to_row self' uk)"
      "updated_at self' = now_t"
      by auto
    then have "pk self' = Some k"
      "map_option updated_at (get_technicien db' k) = Some now_t"
      by (simp_all add: to_row_def)
    with u owner uk show ?thesis by blast
  qed
  have users: "auth_user (snd (marquer_disponible db qs)) = auth_user db"
    "auth_user (snd (marquer_indisponible db qs)) = auth_user db"
    by (simp_all add: marquer_disponible_users marquer_indisponible_users)
  have len: "length (techniciens (snd (marquer_disponible db qs))) = length (techniciens db)"
    "length (techniciens (snd (marquer_indisponible db qs))) = length (techniciens db)"
    by (simp_all add: marquer_disponible_eq marquer_indisponible_eq
          update_disponibilite_length)
  from users len rows save show ?thesis by blast
qed

theorem bulk_actions_frame_witness:
  "map is_staff (auth_user db_alice_profile) = [False] \<and>
   map updated_at (techniciens db_alice_profile) = [0] \<and>
   map disponibilite (techniciens db_alice_profile) = [False] \<and>
   map is_staff (auth_user (snd (marquer_disponible db_alice_profile (selection [1])))) =
     [False] \<and>
   map updated_at (techniciens (snd (marquer_disponible db_alice_profile (selection [1])))) =
     [0] \<and>
   map disponibilite (techniciens (snd (marquer_disponible db_alice_profile (selection [1])))) =
     [True] \<and>
   (\<exists>self' db'.
      Technicien_save db_alice_profile 5 6 (technicien_enregistre alice 1) =
        Returned self' db' \<and>
      map_option is_staff (get_user db' 1) = Some True \<and>
      map_option updated_at (get_technicien db' 1) = Some 6)"
proof -
  let ?d = "snd (marquer_disponible db_alice_profile (selection [1]))"
  note frame = bulk_actions_frame
      [where db = db_alice_profile and qs = "selection [1]" and now_u = 5 and now_t = 6
         and self = "technicien_enregistre alice 1"]
  have before: "map is_staff (auth_user db_alice_profile) = [False]"
    "map updated_at (techniciens db_alice_profile) = [0]"
    "map disponibilite (techniciens db_alice_profile) = [False]"
    by (simp_all add: db_alice_profile_def alice_def to_row_def nouveau_technicien_def technicien_enregistre_def)
  from frame have "auth_user ?d = auth_user db_alice_profile" by blast
  with before have users: "map is_staff (auth_user ?d) = [False]" by simp
  have rows: "techniciens ?d =
      [to_row ((technicien_enregistre alice 1)\<lparr>disponibilite := True\<rparr>) 1]"
    by (simp add: marquer_disponible_def update_disponibilite_def db_alice_profile_def
          selection_def to_row_def nouveau_technicien_def technicien_enregistre_def)
  have after: "map updated_at (techniciens ?d) = [0]" "map disponibilite (techniciens ?d) = [True]"
    unfolding rows by (simp_all add: to_row_def nouveau_technicien_def technicien_enregistre_def)
  from frame [where self' = "(technicien_enregistre (alice\<lparr>updated_at := 5, is_staff := True\<rparr>) 1)
          \<lparr>updated_at := 6\<rparr>"] save_alice_profile
  obtain k u1 uk where
    "pk ((technicien_enregistre (alice\<lparr>updated_at := 5, is_staff := True\<rparr>) 1)
          \<lparr>updated_at := 6\<rparr>) = Some k"
    "user ((technicien_enregistre (alice\<lparr>updated_at := 5, is_staff := True\<rparr>) 1)
          \<lparr>updated_at := 6\<rparr>) = Some u1" "pk u1 = Some uk"
    "map_option updated_at
       (get_technicien \<lparr>auth_user = [alice\<lparr>updated_at := 5, is_staff := True\<rparr>],
        techniciens =
          [to_row ((technicien_enregistre alice 1)\<lparr>updated_at := 6\<rparr>) 1]\<rparr> k) = Some 6"
    "map_option is_staff
       (get_user \<lparr>auth_user = [alice\<lparr>updated_at := 5, is_staff := True\<rparr>],
        techniciens =
          [to_row ((technicien_enregistre alice 1)\<lparr>updated_at := 6\<rparr>) 1]\<rparr> uk) = Some True"
    by blast
  then have "\<exists>self' db'.
      Technicien_save db_alice_profile 5 6 (technicien_enregistre alice 1) =
        Returned self' db' \<and>
      map_option is_staff (get_user db' 1) = Some True \<and>
      map_option updated_at (get_technicien db' 1) = Some 6"
    unfolding save_alice_profile by (auto simp: nouveau_technicien_def technicien_enregistre_def alice_def)
  with before users after show ?thesis by (intro conjI)
qed

end
